theory Spec2Isabelle
  imports Main
begin

section \<open>The polling trigger of the Salesforce node: \<open>router\<close>\<close>

text \<open>
  The development embeds \<^verbatim>\<open>src/nodes/CustomSalesforce/v2/triggers/router.ts\<close>.
  JavaScript strings are modelled as \<^typ>\<open>string\<close>; one \<^typ>\<open>char\<close> stands for one
  code unit, which is exact for the ASCII selectors, modes and field names the node uses.
  The value \<^verbatim>\<open>undefined\<close> of an optional field is \<^term>\<open>None\<close>, and \<^verbatim>\<open>null\<close> as the
  result of a poll is \<^term>\<open>None\<close> as well.
\<close>

subsection \<open>String primitives of the host language\<close>

text \<open>
  \<^verbatim>\<open>String.prototype.slice(start, end)\<close>: a negative index counts from the end of the
  string, every index is clamped to the range \<open>0 .. length\<close>, and the result is empty when
  the clamped start is not below the clamped end. The second argument is optional.
\<close>

definition relative_index :: "int \<Rightarrow> nat \<Rightarrow> nat" where
  "relative_index i n = (if i < 0 then nat (max (int n + i) 0) else min (nat i) n)"

definition slice :: "string \<Rightarrow> int \<Rightarrow> int option \<Rightarrow> string" where
  "slice s b e =
     (let n = length s;
          from = relative_index b n;
          to = (case e of None \<Rightarrow> n | Some j \<Rightarrow> relative_index j n)
      in take (to - from) (drop from s))"

text \<open>
  \<^verbatim>\<open>String.prototype.toUpperCase()\<close> on ASCII: the letters \<open>a\<close> to \<open>z\<close> move to
  \<open>A\<close> to \<open>Z\<close>, every other character stays.
\<close>

definition upper_char :: "char \<Rightarrow> char" where
  "upper_char c =
     (case map_of (zip ''abcdefghijklmnopqrstuvwxyz'' ''ABCDEFGHIJKLMNOPQRSTUVWXYZ'') c of
        None \<Rightarrow> c
      | Some u \<Rightarrow> u)"

definition toUpperCase :: "string \<Rightarrow> string" where
  "toUpperCase s = map upper_char s"

text \<open>Truthiness of an optional string: \<^verbatim>\<open>undefined\<close> and \<^verbatim>\<open>''\<close> are falsy.\<close>

fun truthy :: "string option \<Rightarrow> bool" where
  "truthy None = False"
| "truthy (Some s) = (s \<noteq> [])"

subsection \<open>Data\<close>

text \<open>
  The static data of the node, as far as \<open>router\<close> reads or writes it. The checkpoint is
  \<open>lastTimeChecked\<close>; \<open>name\<close> and \<open>ident\<close> (the field \<^verbatim>\<open>id\<close>) only appear in the log
  message.
\<close>

record workflowData =
  lastTimeChecked :: "string option"
  name :: "string option"
  ident :: "string option"

text \<open>One entry of \<^verbatim>\<open>options.conditionsUi.conditionValues\<close>.\<close>

record condition =
  field :: string
  operation :: string
  cvalue :: string

record conditions_ui =
  conditionValues :: "condition list"

record options =
  conditionsUi :: conditions_ui

text \<open>
  The only error \<open>router\<close> constructs itself: \<^verbatim>\<open>NodeApiError\<close>, wrapping whatever the
  query builder or the request helper threw.
\<close>

datatype 'e error = NodeApiError 'e

text \<open>\<^verbatim>\<open>helpers.returnJsonArray\<close> of the host wraps every record as \<^verbatim>\<open>{ json: record }\<close>.\<close>

datatype 'r item = Item (json: 'r)

definition returnJsonArray :: "'r list \<Rightarrow> 'r item list" where
  "returnJsonArray rs = map Item rs"

text \<open>What \<^verbatim>\<open>Logger.error\<close> is called with: node name, workflow id and the error.\<close>

datatype 'e log_entry = LogError "string option" "string option" "'e error"

text \<open>
  The execution context \<^verbatim>\<open>this\<close> of one poll. The node parameters \<open>triggerOn\<close> and
  \<open>customObject\<close>, the execution mode and the clock reading \<^verbatim>\<open>DateTime.now().toISO()\<close>
  are values; the query builder \<^verbatim>\<open>getQuery\<close> and the paged request helper
  \<^verbatim>\<open>salesforceApiRequestAllItems\<close> live in \<^verbatim>\<open>utils/GenericFunctions\<close>, which is not among
  the sources, and are taken as parameters that either throw (\<^term>\<open>Inl\<close>) or return
  (\<^term>\<open>Inr\<close>). The omitted fourth argument of \<^verbatim>\<open>getQuery\<close> is \<^term>\<open>None\<close>. The request
  helper receives the property name, the method, the endpoint and the query \<^verbatim>\<open>qs.q\<close>
  (the body is always the empty object).
\<close>

record ('e, 'r) env =
  getMode :: string
  triggerOn :: string
  customObject :: string
  now :: string
  getQuery :: "options \<Rightarrow> string \<Rightarrow> bool \<Rightarrow> nat option \<Rightarrow> 'e + string"
  salesforceApiRequestAllItems :: "string \<Rightarrow> string \<Rightarrow> string \<Rightarrow> string \<Rightarrow> 'e + 'r list"

subsection \<open>The steps of \<open>router\<close>\<close>

text \<open>Lines 17 to 22: decoding the selector.\<close>

definition decodedResource :: "string \<Rightarrow> string" where
  "decodedResource sel = toUpperCase (slice sel 0 (Some 1)) @ slice sel 1 (Some (- 7))"

definition changeType :: "string \<Rightarrow> string" where
  "changeType sel = slice sel (- 7) None"

definition triggerResource :: "('e, 'r) env \<Rightarrow> string" where
  "triggerResource c =
     (if decodedResource (triggerOn c) = ''CustomObject'' then customObject c
      else decodedResource (triggerOn c))"

text \<open>Lines 24 to 26: the window.\<close>

definition startDate :: "('e, 'r) env \<Rightarrow> workflowData \<Rightarrow> string" where
  "startDate c wd =
     (case lastTimeChecked wd of
        None \<Rightarrow> now c
      | Some t \<Rightarrow> if truthy (Some t) then t else now c)"

definition endDate :: "('e, 'r) env \<Rightarrow> string" where
  "endDate c = now c"

text \<open>Lines 31 to 66: the conditions pushed for a mode, a change type and a window.\<close>

definition pollConditions :: "string \<Rightarrow> string \<Rightarrow> string \<Rightarrow> string \<Rightarrow> condition list" where
  "pollConditions mode ct pollStartDate pollEndDate =
     (if mode \<noteq> ''manual'' then
        (if ct = ''Created'' then
           [\<lparr>field = ''CreatedDate'', operation = ''>='', cvalue = pollStartDate\<rparr>,
            \<lparr>field = ''CreatedDate'', operation = ''<'', cvalue = pollEndDate\<rparr>]
         else
           [\<lparr>field = ''LastModifiedDate'', operation = ''>='', cvalue = pollStartDate\<rparr>,
            \<lparr>field = ''LastModifiedDate'', operation = ''<'', cvalue = pollEndDate\<rparr>,
            \<lparr>field = ''CreatedDate'', operation = ''<'', cvalue = pollStartDate\<rparr>])
      else [])"

definition pollOptions :: "('e, 'r) env \<Rightarrow> workflowData \<Rightarrow> options" where
  "pollOptions c wd =
     \<lparr>conditionsUi = \<lparr>conditionValues =
        pollConditions (getMode c) (changeType (triggerOn c)) (startDate c wd) (endDate c)\<rparr>\<rparr>"

text \<open>Lines 68 to 84: building the query and fetching; every failure becomes a \<open>NodeApiError\<close>.\<close>

definition buildQuery :: "('e, 'r) env \<Rightarrow> workflowData \<Rightarrow> 'e + string" where
  "buildQuery c wd =
     (if getMode c = ''manual'' then getQuery c (pollOptions c wd) (triggerResource c) False (Some 1)
      else getQuery c (pollOptions c wd) (triggerResource c) True None)"

definition fetchStep :: "('e, 'r) env \<Rightarrow> workflowData \<Rightarrow> 'e error + 'r list" where
  "fetchStep c wd =
     (case buildQuery c wd of
        Inl err \<Rightarrow> Inl (NodeApiError err)
      | Inr q \<Rightarrow>
          (case salesforceApiRequestAllItems c ''records'' ''GET'' ''/query'' q of
             Inl err \<Rightarrow> Inl (NodeApiError err)
           | Inr responseData \<Rightarrow> Inr responseData))"

text \<open>
  The whole function. The result is what the promise settles to (\<^term>\<open>Inl\<close> a rejection),
  the static data as the poll leaves it, and what was logged.
\<close>

definition router ::
  "('e, 'r) env \<Rightarrow> workflowData \<Rightarrow>
     ('e error + 'r item list list option) \<times> workflowData \<times> 'e log_entry list" where
  "router c wd =
     (case fetchStep c wd of
        Inl err \<Rightarrow>
          (if getMode c = ''manual'' \<or> \<not> truthy (lastTimeChecked wd) then (Inl err, wd, [])
           else (Inl err, wd, [LogError (name wd) (ident wd) err]))
      | Inr responseData \<Rightarrow>
          (if responseData = [] then (Inr None, wd\<lparr>lastTimeChecked := Some (endDate c)\<rparr>, [])
           else (Inr (Some [returnJsonArray responseData]),
                 wd\<lparr>lastTimeChecked := Some (endDate c)\<rparr>, [])))"

subsection \<open>Consecutive polls\<close>

text \<open>
  The host calls \<open>router\<close> once per tick, one call at a time, and hands each call the static
  data the previous one left. \<open>pollSequence\<close> records the result of every poll together with
  the static data after it; \<open>checkpoints\<close> are the values of \<open>lastTimeChecked\<close> observed
  after each poll.
\<close>

fun pollSequence ::
  "('e, 'r) env list \<Rightarrow> workflowData \<Rightarrow>
     (('e error + 'r item list list option) \<times> workflowData) list" where
  "pollSequence [] wd = []"
| "pollSequence (c # cs) wd =
     (fst (router c wd), fst (snd (router c wd))) # pollSequence cs (fst (snd (router c wd)))"

definition checkpoints :: "('e, 'r) env list \<Rightarrow> workflowData \<Rightarrow> string option list" where
  "checkpoints cs wd = map (\<lambda>p. lastTimeChecked (snd p)) (pollSequence cs wd)"

fun succeeded :: "'a + 'b \<Rightarrow> bool" where
  "succeeded (Inl _) = False"
| "succeeded (Inr _) = True"

text \<open>
  Timestamps are ISO strings; \<open>tm\<close> reads a timestamp string as a point in time
  (milliseconds since the epoch). Two checkpoints are ordered when both are set and their
  points in time are.
\<close>

fun checkpoint_le :: "(string \<Rightarrow> int) \<Rightarrow> string option \<Rightarrow> string option \<Rightarrow> bool" where
  "checkpoint_le tm (Some a) (Some b) = (tm a \<le> tm b)"
| "checkpoint_le tm _ _ = False"

subsection \<open>What a filter selects\<close>

text \<open>
  Modelled from the spec: the meaning of the conditions handed to the query builder. The
  function \<^verbatim>\<open>getQuery\<close> that turns them into a query and the service that evaluates the
  query are not among the sources; the spec reads the list of conditions as the conjunction
  \<^verbatim>\<open>field operation value AND ...\<close> over the \<open>CreatedDate\<close> and \<open>LastModifiedDate\<close> of a
  record, with \<^verbatim>\<open>>=\<close> and \<^verbatim>\<open><\<close> comparing points in time. A condition on any other
  field or with any other operation selects nothing.
\<close>

record sobject =
  createdDate :: int
  lastModifiedDate :: int

definition fieldValue :: "sobject \<Rightarrow> string \<Rightarrow> int option" where
  "fieldValue r f =
     (if f = ''CreatedDate'' then Some (createdDate r)
      else if f = ''LastModifiedDate'' then Some (lastModifiedDate r)
      else None)"

definition holds :: "(string \<Rightarrow> int) \<Rightarrow> sobject \<Rightarrow> condition \<Rightarrow> bool" where
  "holds tm r cnd =
     (case fieldValue r (field cnd) of
        None \<Rightarrow> False
      | Some v \<Rightarrow>
          (if operation cnd = ''>='' then tm (cvalue cnd) \<le> v
           else if operation cnd = ''<'' then v < tm (cvalue cnd)
           else False))"

definition matches :: "(string \<Rightarrow> int) \<Rightarrow> sobject \<Rightarrow> condition list \<Rightarrow> bool" where
  "matches tm r cnds = list_all (holds tm r) cnds"

subsection \<open>The decoding rule as the specification words it\<close>

text \<open>
  The change kind is the final seven characters of the selector; the resource name is the
  remaining prefix with its first character upper-cased.
\<close>

definition spec_changeKind :: "string \<Rightarrow> string" where
  "spec_changeKind sel = drop (length sel - 7) sel"

definition spec_resourceName :: "string \<Rightarrow> string" where
  "spec_resourceName sel =
     (case take (length sel - 7) sel of
        [] \<Rightarrow> []
      | x # xs \<Rightarrow> upper_char x # xs)"

subsection \<open>Sample environments\<close>

text \<open>
  Concrete collaborators for evaluating \<open>router\<close>: a query builder that never throws, a
  request helper that answers every query with the given records, and one that always
  throws.
\<close>

definition sampleQuery :: "options \<Rightarrow> string \<Rightarrow> bool \<Rightarrow> nat option \<Rightarrow> string + string" where
  "sampleQuery opts sobj returnAll limit = Inr (''SELECT id FROM '' @ sobj)"

definition answering :: "'r list \<Rightarrow> string \<Rightarrow> string \<Rightarrow> string \<Rightarrow> string \<Rightarrow> string + 'r list" where
  "answering rs propertyName method endpoint q = Inr rs"

definition failing :: "string \<Rightarrow> string \<Rightarrow> string \<Rightarrow> string \<Rightarrow> string + 'r list" where
  "failing propertyName method endpoint q = Inl ''ECONNRESET''"

definition sampleEnv ::
  "string \<Rightarrow> string \<Rightarrow> string \<Rightarrow> string \<Rightarrow>
     (string \<Rightarrow> string \<Rightarrow> string \<Rightarrow> string \<Rightarrow> string + 'r list) \<Rightarrow> (string, 'r) env" where
  "sampleEnv mode sel obj t request =
     \<lparr>getMode = mode, triggerOn = sel, customObject = obj, now = t,
      getQuery = sampleQuery, salesforceApiRequestAllItems = request\<rparr>"

definition sampleData :: "string option \<Rightarrow> workflowData" where
  "sampleData cp = \<lparr>lastTimeChecked = cp, name = None, ident = None\<rparr>"

text \<open>A reading of the three timestamps used in the examples: one day apart.\<close>

definition sampleTime :: "string \<Rightarrow> int" where
  "sampleTime t =
     (if t = ''2024-01-01T00:00:00Z'' then 1704067200000
      else if t = ''2024-01-02T00:00:00Z'' then 1704153600000
      else if t = ''2024-01-03T00:00:00Z'' then 1704240000000
      else 0)"

section \<open>Properties\<close>

subsection \<open>Auxiliary facts\<close>

lemma relative_index_minus7: "relative_index (- 7) n = n - 7"
  unfolding relative_index_def by (simp add: max_def) arith

lemma relative_index_0: "relative_index 0 n = 0"
  by (simp add: relative_index_def)

lemma relative_index_1: "relative_index 1 n = min 1 n"
  by (simp add: relative_index_def)

lemma slice_last7: "slice s (- 7) None = drop (length s - 7) s"
  by (simp add: slice_def relative_index_minus7)

lemma slice_first: "slice s 0 (Some 1) = take 1 s"
  by (cases s) (simp_all add: slice_def relative_index_0 relative_index_1)

lemma slice_middle: "slice s 1 (Some (- 7)) = take (length s - 7 - 1) (drop 1 s)"
  by (cases s) (simp_all add: slice_def relative_index_minus7 relative_index_1)

lemma decodedResource_eq:
  "decodedResource sel = map upper_char (take 1 sel) @ take (length sel - 7 - 1) (drop 1 sel)"
  by (simp add: decodedResource_def toUpperCase_def slice_first slice_middle)

lemma decodedResource_long:
  "7 < length sel \<Longrightarrow> decodedResource sel = spec_resourceName sel"
proof (cases sel)
  case Nil
  then show "7 < length sel \<Longrightarrow> ?thesis" by simp
next
  case (Cons x xs)
  assume "7 < length sel"
  with Cons obtain k where k: "length xs - 6 = Suc k" "length xs - 7 = k"
    by (cases "length xs - 6") auto
  show ?thesis
    unfolding decodedResource_eq spec_resourceName_def using Cons k
    by (simp add: Suc_diff_le)
qed

lemma decodedResource_short:
  "sel \<noteq> [] \<Longrightarrow> length sel \<le> 7 \<Longrightarrow> decodedResource sel = [upper_char (hd sel)]"
  by (cases sel) (simp_all add: decodedResource_eq)

lemma spec_resourceName_short: "length sel \<le> 7 \<Longrightarrow> spec_resourceName sel = []"
  by (simp add: spec_resourceName_def)


lemma changeType_eq: "changeType sel = drop (length sel - 7) sel"
  by (simp add: changeType_def slice_last7)

lemma router_failure:
  "fetchStep c wd = Inl err \<Longrightarrow> fst (router c wd) = Inl err \<and> fst (snd (router c wd)) = wd"
  by (simp add: router_def)

lemma router_success:
  "fetchStep c wd = Inr rs \<Longrightarrow>
     fst (router c wd) = Inr (if rs = [] then None else Some [returnJsonArray rs]) \<and>
     fst (snd (router c wd)) = wd\<lparr>lastTimeChecked := Some (endDate c)\<rparr>"
  by (simp add: router_def)

lemma router_succeeded_iff: "succeeded (fst (router c wd)) = succeeded (fetchStep c wd)"
  by (cases "fetchStep c wd") (simp_all add: router_failure router_success)

lemma router_succeeded_checkpoint:
  "succeeded (fst (router c wd)) \<Longrightarrow> lastTimeChecked (fst (snd (router c wd))) = Some (now c)"
proof (cases "fetchStep c wd")
  case (Inl err)
  assume "succeeded (fst (router c wd))"
  with router_failure [OF Inl] show ?thesis by simp
next
  case (Inr rs)
  from router_success [OF Inr] show ?thesis by (simp add: endDate_def)
qed

lemma checkpoints_all_succeeded:
  "\<forall>p \<in> set (pollSequence cs wd). succeeded (fst p) \<Longrightarrow>
     checkpoints cs wd = map (\<lambda>c. Some (now c)) cs"
  unfolding checkpoints_def
  by (induction cs arbitrary: wd) (simp_all add: router_succeeded_checkpoint)

lemma sorted_checkpoint_le:
  "sorted_wrt (\<lambda>a b. tm a < tm b) ts \<Longrightarrow> sorted_wrt (checkpoint_le tm) (map Some ts)"
  by (induction ts) auto


lemma router_failure_only_from_fetch:
  "fst (router c wd) = Inl err \<Longrightarrow> fetchStep c wd = Inl err"
  by (cases "fetchStep c wd") (simp_all add: router_failure router_success)

lemma startDate_falsy: "\<not> truthy (lastTimeChecked wd) \<Longrightarrow> startDate c wd = now c"
  by (cases "lastTimeChecked wd") (simp_all add: startDate_def)

lemma startDate_truthy:
  "lastTimeChecked wd = Some t \<Longrightarrow> t \<noteq> [] \<Longrightarrow> startDate c wd = t"
  by (simp add: startDate_def)

lemma pollOptions_conditions:
  "conditionValues (conditionsUi (pollOptions c wd)) =
     pollConditions (getMode c) (changeType (triggerOn c)) (startDate c wd) (endDate c)"
  by (simp add: pollOptions_def)

lemma empty_window_selects_nothing:
  "mode \<noteq> ''manual'' \<Longrightarrow> \<not> matches tm r (pollConditions mode ct t t)"
  by (simp add: pollConditions_def matches_def holds_def fieldValue_def)

text \<open>The definitions unfolded when \<open>router\<close> is evaluated on a sample.\<close>

lemmas sample_defs = sampleEnv_def sampleData_def sampleQuery_def answering_def failing_def
  sampleTime_def
lemmas router_defs = router_def fetchStep_def buildQuery_def pollOptions_def pollConditions_def
  triggerResource_def startDate_def endDate_def returnJsonArray_def

subsection \<open>The checkpoint after a poll\<close>

text \<open>
  C1. Every poll that completes without an error leaves \<open>lastTimeChecked\<close> equal to the
  window end \<open>now\<close> of that poll, whether the batch was empty (\<open>batch = None\<close>) or not.
  Hence, in a sequence of polls that all succeed, the checkpoints observed are exactly the
  \<open>now\<close> values of the polls, and they are in order whenever the \<open>now\<close> values increase.
\<close>

theorem checkpoint_is_window_end:
  "(fst (router c wd) = Inr batch \<longrightarrow>
      lastTimeChecked (fst (snd (router c wd))) = Some (now c)) \<and>
   ((\<forall>p \<in> set (pollSequence cs wd). succeeded (fst p)) \<longrightarrow>
      checkpoints cs wd = map (\<lambda>c. Some (now c)) cs \<and>
      (sorted_wrt (\<lambda>a b. tm a < tm b) (map now cs) \<longrightarrow>
         sorted_wrt (checkpoint_le tm) (checkpoints cs wd)))"
proof (intro conjI impI)
  assume "fst (router c wd) = Inr batch"
  then have "succeeded (fst (router c wd))" by simp
  then show "lastTimeChecked (fst (snd (router c wd))) = Some (now c)"
    by (rule router_succeeded_checkpoint)
next
  assume ok: "\<forall>p \<in> set (pollSequence cs wd). succeeded (fst p)"
  then show eq: "checkpoints cs wd = map (\<lambda>c. Some (now c)) cs"
    by (rule checkpoints_all_succeeded)
  assume "sorted_wrt (\<lambda>a b. tm a < tm b) (map now cs)"
  then have "sorted_wrt (checkpoint_le tm) (map Some (map now cs))"
    by (rule sorted_checkpoint_le)
  then show "sorted_wrt (checkpoint_le tm) (checkpoints cs wd)"
    by (simp add: eq comp_def)
qed

theorem checkpoint_is_window_end_witness:
  "list_all (\<lambda>p. succeeded (fst p)) (pollSequence
     [sampleEnv ''trigger'' ''opportunityUpdated'' [] ''2024-01-01T00:00:00Z'' (answering []),
      sampleEnv ''trigger'' ''opportunityUpdated'' [] ''2024-01-02T00:00:00Z'' (answering [5 :: nat]),
      sampleEnv ''trigger'' ''opportunityUpdated'' [] ''2024-01-03T00:00:00Z'' (answering [])]
     (sampleData None)) \<and>
   sorted_wrt (\<lambda>a b. sampleTime a < sampleTime b)
     [''2024-01-01T00:00:00Z'', ''2024-01-02T00:00:00Z'', ''2024-01-03T00:00:00Z''] \<and>
   fst (router (sampleEnv ''trigger'' ''opportunityUpdated'' [] ''2024-01-01T00:00:00Z''
          (answering ([] :: nat list))) (sampleData None)) = Inr None \<and>
   lastTimeChecked (fst (snd (router (sampleEnv ''trigger'' ''opportunityUpdated'' []
          ''2024-01-01T00:00:00Z'' (answering ([] :: nat list))) (sampleData None))))
     = Some ''2024-01-01T00:00:00Z'' \<and>
   checkpoints
     [sampleEnv ''trigger'' ''opportunityUpdated'' [] ''2024-01-01T00:00:00Z'' (answering []),
      sampleEnv ''trigger'' ''opportunityUpdated'' [] ''2024-01-02T00:00:00Z'' (answering [5 :: nat]),
      sampleEnv ''trigger'' ''opportunityUpdated'' [] ''2024-01-03T00:00:00Z'' (answering [])]
     (sampleData None)
     = [Some ''2024-01-01T00:00:00Z'', Some ''2024-01-02T00:00:00Z'', Some ''2024-01-03T00:00:00Z''] \<and>
   sorted_wrt (checkpoint_le sampleTime)
     (checkpoints
       [sampleEnv ''trigger'' ''opportunityUpdated'' [] ''2024-01-01T00:00:00Z'' (answering []),
        sampleEnv ''trigger'' ''opportunityUpdated'' [] ''2024-01-02T00:00:00Z'' (answering [5 :: nat]),
        sampleEnv ''trigger'' ''opportunityUpdated'' [] ''2024-01-03T00:00:00Z'' (answering [])]
       (sampleData None))"
  using checkpoint_is_window_end
    [of "sampleEnv ''trigger'' ''opportunityUpdated'' [] ''2024-01-01T00:00:00Z'' (answering ([] :: nat list))"
        "sampleData None" None
        "[sampleEnv ''trigger'' ''opportunityUpdated'' [] ''2024-01-01T00:00:00Z'' (answering []),
          sampleEnv ''trigger'' ''opportunityUpdated'' [] ''2024-01-02T00:00:00Z'' (answering [5 :: nat]),
          sampleEnv ''trigger'' ''opportunityUpdated'' [] ''2024-01-03T00:00:00Z'' (answering [])]"
        sampleTime]
  by (simp add: sample_defs router_defs)


text \<open>
  C2. When a checkpoint \<open>C\<close> exists and the fetch step fails, \<open>router\<close> raises that
  error, the static data is left as it was, so the checkpoint is still \<open>C\<close>, and the
  window of the next poll (whatever its context \<open>c'\<close>) starts at \<open>C\<close>; the window start
  reads the checkpoint through \<^verbatim>\<open>||\<close>, so this last part is for a non-empty \<open>C\<close>.
\<close>

theorem failure_keeps_checkpoint:
  assumes "lastTimeChecked wd = Some C" and "fetchStep c wd = Inl err"
  shows "fst (router c wd) = Inl err \<and>
         fst (snd (router c wd)) = wd \<and>
         lastTimeChecked (fst (snd (router c wd))) = Some C \<and>
         (truthy (Some C) \<longrightarrow> startDate c' (fst (snd (router c wd))) = C)"
proof -
  from router_failure [OF assms(2)]
  have r: "fst (router c wd) = Inl err" and s: "fst (snd (router c wd)) = wd"
    by simp_all
  have "startDate c' wd = C" if "truthy (Some C)"
  proof -
    from that have "C \<noteq> []" by simp
    with assms(1) show ?thesis by (rule startDate_truthy)
  qed
  with r s assms(1) show ?thesis by simp
qed

theorem failure_keeps_checkpoint_witness:
  "lastTimeChecked (sampleData (Some ''2024-01-01T00:00:00Z'')) = Some ''2024-01-01T00:00:00Z'' \<and>
   truthy (Some ''2024-01-01T00:00:00Z'') \<and>
   fetchStep (sampleEnv ''trigger'' ''opportunityUpdated'' [] ''2024-01-02T00:00:00Z''
       (failing :: string \<Rightarrow> string \<Rightarrow> string \<Rightarrow> string \<Rightarrow> string + nat list))
     (sampleData (Some ''2024-01-01T00:00:00Z'')) = Inl (NodeApiError ''ECONNRESET'') \<and>
   fst (router (sampleEnv ''trigger'' ''opportunityUpdated'' [] ''2024-01-02T00:00:00Z''
       (failing :: string \<Rightarrow> string \<Rightarrow> string \<Rightarrow> string \<Rightarrow> string + nat list))
     (sampleData (Some ''2024-01-01T00:00:00Z''))) = Inl (NodeApiError ''ECONNRESET'') \<and>
   fst (snd (router (sampleEnv ''trigger'' ''opportunityUpdated'' [] ''2024-01-02T00:00:00Z''
       (failing :: string \<Rightarrow> string \<Rightarrow> string \<Rightarrow> string \<Rightarrow> string + nat list))
     (sampleData (Some ''2024-01-01T00:00:00Z'')))) = sampleData (Some ''2024-01-01T00:00:00Z'') \<and>
   startDate (sampleEnv ''trigger'' ''opportunityUpdated'' [] ''2024-01-03T00:00:00Z'' (answering [7 :: nat]))
     (fst (snd (router (sampleEnv ''trigger'' ''opportunityUpdated'' [] ''2024-01-02T00:00:00Z''
       (failing :: string \<Rightarrow> string \<Rightarrow> string \<Rightarrow> string \<Rightarrow> string + nat list))
     (sampleData (Some ''2024-01-01T00:00:00Z''))))) = ''2024-01-01T00:00:00Z''"
proof -
  have h1: "lastTimeChecked (sampleData (Some ''2024-01-01T00:00:00Z'')) = Some ''2024-01-01T00:00:00Z''"
    by (simp add: sampleData_def)
  have h2: "truthy (Some ''2024-01-01T00:00:00Z'')" by simp
  have h3: "fetchStep (sampleEnv ''trigger'' ''opportunityUpdated'' [] ''2024-01-02T00:00:00Z''
       (failing :: string \<Rightarrow> string \<Rightarrow> string \<Rightarrow> string \<Rightarrow> string + nat list))
     (sampleData (Some ''2024-01-01T00:00:00Z'')) = Inl (NodeApiError ''ECONNRESET'')"
    by (simp add: sample_defs router_defs)
  from failure_keeps_checkpoint [OF h1 h3,
      of "sampleEnv ''trigger'' ''opportunityUpdated'' [] ''2024-01-03T00:00:00Z'' (answering [7 :: nat])"]
  show ?thesis by (simp add: sample_defs router_defs)
qed

text \<open>
  C3. When no checkpoint exists and the fetch step fails, \<open>router\<close> raises that error
  (without logging), the checkpoint stays unset, and the next poll again sees no
  checkpoint: its window starts at its own \<open>now\<close>.
\<close>

theorem first_failure_leaves_unset:
  assumes "lastTimeChecked wd = None" and "fetchStep c wd = Inl err"
  shows "router c wd = (Inl err, wd, []) \<and>
         lastTimeChecked (fst (snd (router c wd))) = None \<and>
         startDate c' (fst (snd (router c wd))) = now c'"
proof -
  from assms have r: "router c wd = (Inl err, wd, [])"
    by (simp add: router_def)
  from assms(1) have "startDate c' wd = now c'"
    by (simp add: startDate_falsy)
  with r assms(1) show ?thesis by simp
qed

theorem first_failure_leaves_unset_witness:
  "lastTimeChecked (sampleData None) = None \<and>
   fetchStep (sampleEnv ''trigger'' ''leadCreated'' [] ''2024-01-02T00:00:00Z''
       (failing :: string \<Rightarrow> string \<Rightarrow> string \<Rightarrow> string \<Rightarrow> string + nat list))
     (sampleData None) = Inl (NodeApiError ''ECONNRESET'') \<and>
   router (sampleEnv ''trigger'' ''leadCreated'' [] ''2024-01-02T00:00:00Z''
       (failing :: string \<Rightarrow> string \<Rightarrow> string \<Rightarrow> string \<Rightarrow> string + nat list))
     (sampleData None) = (Inl (NodeApiError ''ECONNRESET''), sampleData None, []) \<and>
   startDate (sampleEnv ''trigger'' ''leadCreated'' [] ''2024-01-03T00:00:00Z'' (answering [7 :: nat]))
     (fst (snd (router (sampleEnv ''trigger'' ''leadCreated'' [] ''2024-01-02T00:00:00Z''
       (failing :: string \<Rightarrow> string \<Rightarrow> string \<Rightarrow> string \<Rightarrow> string + nat list))
     (sampleData None)))) = ''2024-01-03T00:00:00Z''"
proof -
  have h1: "lastTimeChecked (sampleData None) = None"
    by (simp add: sampleData_def)
  have h2: "fetchStep (sampleEnv ''trigger'' ''leadCreated'' [] ''2024-01-02T00:00:00Z''
       (failing :: string \<Rightarrow> string \<Rightarrow> string \<Rightarrow> string \<Rightarrow> string + nat list))
     (sampleData None) = Inl (NodeApiError ''ECONNRESET'')"
    by (simp add: sample_defs router_defs)
  from first_failure_leaves_unset [OF h1 h2,
      of "sampleEnv ''trigger'' ''leadCreated'' [] ''2024-01-03T00:00:00Z'' (answering [7 :: nat])"]
  show ?thesis by (simp add: sample_defs router_defs)
qed

subsection \<open>The filter of a poll\<close>

text \<open>
  C4. In a poll that is not manual, with window start \<open>startDate c wd\<close> and window end
  \<open>endDate c\<close>, the conditions handed to the query builder are exactly: for the change type
  \<open>Created\<close> the two clauses \<open>CreatedDate >= start\<close>, \<open>CreatedDate < end\<close>; for \<open>Updated\<close> the
  three clauses \<open>LastModifiedDate >= start\<close>, \<open>LastModifiedDate < end\<close>, \<open>CreatedDate < start\<close>,
  in this order. The query is built from these options, for all records.
\<close>
theorem window_conditions:
  assumes "getMode c \<noteq> ''manual''"
  shows "(changeType (triggerOn c) = ''Created'' \<longrightarrow>
            conditionValues (conditionsUi (pollOptions c wd)) =
              [\<lparr>field = ''CreatedDate'', operation = ''>='', cvalue = startDate c wd\<rparr>,
               \<lparr>field = ''CreatedDate'', operation = ''<'', cvalue = endDate c\<rparr>]) \<and>
         (changeType (triggerOn c) = ''Updated'' \<longrightarrow>
            conditionValues (conditionsUi (pollOptions c wd)) =
              [\<lparr>field = ''LastModifiedDate'', operation = ''>='', cvalue = startDate c wd\<rparr>,
               \<lparr>field = ''LastModifiedDate'', operation = ''<'', cvalue = endDate c\<rparr>,
               \<lparr>field = ''CreatedDate'', operation = ''<'', cvalue = startDate c wd\<rparr>]) \<and>
         buildQuery c wd = getQuery c (pollOptions c wd) (triggerResource c) True None"
  using assms by (simp add: pollOptions_conditions pollConditions_def buildQuery_def)

theorem window_conditions_witness:
  "getMode (sampleEnv ''trigger'' ''opportunityUpdated'' [] ''2024-01-02T00:00:00Z''
      (answering ([] :: nat list))) \<noteq> ''manual'' \<and>
   changeType (triggerOn (sampleEnv ''trigger'' ''opportunityUpdated'' [] ''2024-01-02T00:00:00Z''
      (answering ([] :: nat list)))) = ''Updated'' \<and>
   conditionValues (conditionsUi (pollOptions
      (sampleEnv ''trigger'' ''opportunityUpdated'' [] ''2024-01-02T00:00:00Z''
        (answering ([] :: nat list)))
      (sampleData (Some ''2024-01-01T00:00:00Z'')))) =
     [\<lparr>field = ''LastModifiedDate'', operation = ''>='', cvalue = ''2024-01-01T00:00:00Z''\<rparr>,
      \<lparr>field = ''LastModifiedDate'', operation = ''<'', cvalue = ''2024-01-02T00:00:00Z''\<rparr>,
      \<lparr>field = ''CreatedDate'', operation = ''<'', cvalue = ''2024-01-01T00:00:00Z''\<rparr>] \<and>
   buildQuery (sampleEnv ''trigger'' ''opportunityUpdated'' [] ''2024-01-02T00:00:00Z''
        (answering ([] :: nat list)))
      (sampleData (Some ''2024-01-01T00:00:00Z'')) = Inr ''SELECT id FROM Opportunity''"
  using window_conditions
    [of "sampleEnv ''trigger'' ''opportunityUpdated'' [] ''2024-01-02T00:00:00Z'' (answering ([] :: nat list))"
        "sampleData (Some ''2024-01-01T00:00:00Z'')"]
  by (simp add: sample_defs router_defs changeType_eq decodedResource_eq upper_char_def)

text \<open>
  C5. A record created at a time inside the window \<open>[s, e)\<close> satisfies the \<open>Created\<close>
  filter of that window, and fails the \<open>Updated\<close> filter of every window \<open>[s', e')\<close> whose
  start is not after its creation, because the third clause asks for \<open>CreatedDate < s'\<close>.
\<close>
theorem created_never_updated:
  assumes "mode \<noteq> ''manual''" and "tm s \<le> createdDate r" and "createdDate r < tm e"
  shows "matches tm r (pollConditions mode ''Created'' s e) \<and>
         (tm s' \<le> createdDate r \<longrightarrow> \<not> matches tm r (pollConditions mode ''Updated'' s' e'))"
  using assms by (simp add: pollConditions_def matches_def holds_def fieldValue_def)

theorem created_never_updated_witness:
  "''trigger'' \<noteq> ''manual'' \<and>
   sampleTime ''2024-01-01T00:00:00Z'' \<le> createdDate \<lparr>createdDate = 1704100000000, lastModifiedDate = 1704200000000\<rparr> \<and>
   createdDate \<lparr>createdDate = 1704100000000, lastModifiedDate = 1704200000000\<rparr> < sampleTime ''2024-01-02T00:00:00Z'' \<and>
   matches sampleTime \<lparr>createdDate = 1704100000000, lastModifiedDate = 1704200000000\<rparr>
     (pollConditions ''trigger'' ''Created'' ''2024-01-01T00:00:00Z'' ''2024-01-02T00:00:00Z'') \<and>
   \<not> matches sampleTime \<lparr>createdDate = 1704100000000, lastModifiedDate = 1704200000000\<rparr>
     (pollConditions ''trigger'' ''Updated'' ''2024-01-01T00:00:00Z'' ''2024-01-02T00:00:00Z'')"
  using created_never_updated
    [of "''trigger''" sampleTime "''2024-01-01T00:00:00Z''"
        "\<lparr>createdDate = 1704100000000, lastModifiedDate = 1704200000000\<rparr>"
        "''2024-01-02T00:00:00Z''" "''2024-01-01T00:00:00Z''" "''2024-01-02T00:00:00Z''"]
  by (simp add: sampleTime_def pollConditions_def matches_def holds_def fieldValue_def)


subsection \<open>The first poll\<close>

text \<open>
  C6, as amended. In a first poll that is not manual (no checkpoint yet) at time \<open>T\<close>
  whose fetch step succeeds, for any selector, the window is \<open>[T, T)\<close>, no record
  satisfies the filter built for it, and the new checkpoint is \<open>T\<close>. The poll itself holds
  nothing back: it returns the empty batch exactly when the fetch returned no record, and
  otherwise hands on every record the fetch returned. The claim as stated, an empty batch
  for every first poll, fails when the fetch answers the query with a record.
\<close>

theorem first_poll_watermark_only:
  assumes "getMode c \<noteq> ''manual''" and "\<not> truthy (lastTimeChecked wd)"
    and "fetchStep c wd = Inr rs"
  shows "startDate c wd = now c \<and> endDate c = now c \<and>
         \<not> matches tm r (conditionValues (conditionsUi (pollOptions c wd))) \<and>
         lastTimeChecked (fst (snd (router c wd))) = Some (now c) \<and>
         fst (router c wd) = Inr (if rs = [] then None else Some [returnJsonArray rs]) \<and>
         (fst (router c wd) = Inr None) = (rs = [])"
proof -
  have w: "startDate c wd = now c"
    using assms(2) by (rule startDate_falsy)
  have e: "endDate c = now c"
    by (simp add: endDate_def)
  have none: "\<not> matches tm r (conditionValues (conditionsUi (pollOptions c wd)))"
    unfolding pollOptions_conditions w e using assms(1) by (rule empty_window_selects_nothing)
  from router_success [OF assms(3)]
  have res: "fst (router c wd) = Inr (if rs = [] then None else Some [returnJsonArray rs])"
    and cp: "lastTimeChecked (fst (snd (router c wd))) = Some (now c)"
    by (simp_all add: endDate_def)
  from res have iff: "(fst (router c wd) = Inr None) = (rs = [])"
    by simp
  from w e none cp res iff show ?thesis by blast
qed

theorem first_poll_watermark_only_witness:
  "getMode (sampleEnv ''trigger'' ''leadCreated'' [] ''2024-01-02T00:00:00Z''
      (answering ([] :: sobject list))) \<noteq> ''manual'' \<and>
   \<not> truthy (lastTimeChecked (sampleData None)) \<and>
   fetchStep (sampleEnv ''trigger'' ''leadCreated'' [] ''2024-01-02T00:00:00Z''
      (answering ([] :: sobject list))) (sampleData None) = Inr [] \<and>
   startDate (sampleEnv ''trigger'' ''leadCreated'' [] ''2024-01-02T00:00:00Z''
      (answering ([] :: sobject list))) (sampleData None) = ''2024-01-02T00:00:00Z'' \<and>
   endDate (sampleEnv ''trigger'' ''leadCreated'' [] ''2024-01-02T00:00:00Z''
      (answering ([] :: sobject list))) = ''2024-01-02T00:00:00Z'' \<and>
   \<not> matches sampleTime \<lparr>createdDate = 1704153600000, lastModifiedDate = 1704153600000\<rparr>
     (conditionValues (conditionsUi (pollOptions
        (sampleEnv ''trigger'' ''leadCreated'' [] ''2024-01-02T00:00:00Z''
          (answering ([] :: sobject list))) (sampleData None)))) \<and>
   fst (router (sampleEnv ''trigger'' ''leadCreated'' [] ''2024-01-02T00:00:00Z''
      (answering ([] :: sobject list))) (sampleData None)) = Inr None \<and>
   lastTimeChecked (fst (snd (router (sampleEnv ''trigger'' ''leadCreated'' []
      ''2024-01-02T00:00:00Z'' (answering ([] :: sobject list))) (sampleData None))))
     = Some ''2024-01-02T00:00:00Z''"
  using first_poll_watermark_only
    [of "sampleEnv ''trigger'' ''leadCreated'' [] ''2024-01-02T00:00:00Z'' (answering ([] :: sobject list))"
        "sampleData None" "[]" sampleTime
        "\<lparr>createdDate = 1704153600000, lastModifiedDate = 1704153600000\<rparr>"]
  by (simp add: sample_defs router_defs)

theorem first_poll_counterexample:
  "getMode (sampleEnv ''trigger'' ''leadCreated'' [] ''2024-01-02T00:00:00Z''
      (answering [5 :: nat])) \<noteq> ''manual'' \<and>
   lastTimeChecked (sampleData None) = None \<and>
   startDate (sampleEnv ''trigger'' ''leadCreated'' [] ''2024-01-02T00:00:00Z''
      (answering [5 :: nat])) (sampleData None) = ''2024-01-02T00:00:00Z'' \<and>
   endDate (sampleEnv ''trigger'' ''leadCreated'' [] ''2024-01-02T00:00:00Z''
      (answering [5 :: nat])) = ''2024-01-02T00:00:00Z'' \<and>
   router (sampleEnv ''trigger'' ''leadCreated'' [] ''2024-01-02T00:00:00Z''
      (answering [5 :: nat])) (sampleData None) =
     (Inr (Some [[Item 5]]), sampleData (Some ''2024-01-02T00:00:00Z''), []) \<and>
   fst (router (sampleEnv ''trigger'' ''leadCreated'' [] ''2024-01-02T00:00:00Z''
      (answering [5 :: nat])) (sampleData None)) \<noteq> Inr None"
  by (simp add: sample_defs router_defs)

subsection \<open>Manual polls\<close>

text \<open>
  C7. In a manual poll no condition is added, so the checkpoint plays no part in the query
  (the fetch step is the same for any static data); the query is built with
  \<open>returnAll = false\<close> and limit one; and a poll that succeeds still moves the checkpoint to
  \<open>now\<close>.
\<close>
theorem manual_poll:
  assumes "getMode c = ''manual''"
  shows "conditionValues (conditionsUi (pollOptions c wd)) = [] \<and>
         buildQuery c wd =
           getQuery c \<lparr>conditionsUi = \<lparr>conditionValues = []\<rparr>\<rparr> (triggerResource c) False (Some 1) \<and>
         fetchStep c wd' = fetchStep c wd \<and>
         (fst (router c wd) = Inr batch \<longrightarrow>
            lastTimeChecked (fst (snd (router c wd))) = Some (now c))"
proof -
  have o: "pollOptions c w = \<lparr>conditionsUi = \<lparr>conditionValues = []\<rparr>\<rparr>" for w
    using assms by (simp add: pollOptions_def pollConditions_def)
  have q: "buildQuery c w =
      getQuery c \<lparr>conditionsUi = \<lparr>conditionValues = []\<rparr>\<rparr> (triggerResource c) False (Some 1)" for w
    using assms by (simp add: buildQuery_def o)
  have f: "fetchStep c wd' = fetchStep c wd"
    by (simp add: fetchStep_def q)
  have cp: "lastTimeChecked (fst (snd (router c wd))) = Some (now c)"
    if "fst (router c wd) = Inr batch"
  proof -
    from that have "succeeded (fst (router c wd))" by simp
    then show ?thesis by (rule router_succeeded_checkpoint)
  qed
  from o q f cp show ?thesis by simp
qed

theorem manual_poll_witness:
  "getMode (sampleEnv ''manual'' ''opportunityUpdated'' [] ''2024-01-02T00:00:00Z''
      (answering [5 :: nat])) = ''manual'' \<and>
   conditionValues (conditionsUi (pollOptions
      (sampleEnv ''manual'' ''opportunityUpdated'' [] ''2024-01-02T00:00:00Z'' (answering [5 :: nat]))
      (sampleData (Some ''2024-01-01T00:00:00Z'')))) = [] \<and>
   fst (router (sampleEnv ''manual'' ''opportunityUpdated'' [] ''2024-01-02T00:00:00Z''
      (answering [5 :: nat])) (sampleData (Some ''2024-01-01T00:00:00Z''))) = Inr (Some [[Item 5]]) \<and>
   lastTimeChecked (fst (snd (router (sampleEnv ''manual'' ''opportunityUpdated'' []
      ''2024-01-02T00:00:00Z'' (answering [5 :: nat])) (sampleData (Some ''2024-01-01T00:00:00Z'')))))
     = Some ''2024-01-02T00:00:00Z''"
  using manual_poll
    [of "sampleEnv ''manual'' ''opportunityUpdated'' [] ''2024-01-02T00:00:00Z'' (answering [5 :: nat])"
        "sampleData (Some ''2024-01-01T00:00:00Z'')" "sampleData None" "Some [[Item 5]]"]
  by (simp add: sample_defs router_defs)


subsection \<open>Decoding the selector\<close>

text \<open>
  C8, as amended. For every selector the change type is its final seven characters. For
  every selector of more than seven characters the decoded resource is the remaining prefix
  with only its first character upper-cased, and the resource of the poll is the field
  \<open>customObject\<close> when that prefix decodes to \<open>CustomObject\<close>. For a selector of one to seven
  characters the claim fails: the decoded resource is the upper-cased first character, not
  the empty prefix.
\<close>
theorem selector_decoding:
  "changeType sel = spec_changeKind sel \<and>
   (7 < length sel \<longrightarrow> decodedResource sel = spec_resourceName sel) \<and>
   (7 < length (triggerOn c) \<longrightarrow>
      triggerResource c =
        (if spec_resourceName (triggerOn c) = ''CustomObject'' then customObject c
         else spec_resourceName (triggerOn c)))"
  by (simp add: changeType_eq spec_changeKind_def decodedResource_long triggerResource_def)

theorem selector_decoding_witness:
  "7 < length ''customObjectUpdated'' \<and>
   7 < length (triggerOn (sampleEnv ''trigger'' ''customObjectUpdated'' ''Invoice__c''
      ''2024-01-02T00:00:00Z'' (answering [5 :: nat]))) \<and>
   changeType ''customObjectUpdated'' = ''Updated'' \<and>
   decodedResource ''customObjectUpdated'' = ''CustomObject'' \<and>
   triggerResource (sampleEnv ''trigger'' ''customObjectUpdated'' ''Invoice__c''
      ''2024-01-02T00:00:00Z'' (answering [5 :: nat])) = ''Invoice__c''"
  using selector_decoding
    [of "''customObjectUpdated''"
        "sampleEnv ''trigger'' ''customObjectUpdated'' ''Invoice__c'' ''2024-01-02T00:00:00Z'' (answering [5 :: nat])"]
  by (simp add: sampleEnv_def spec_changeKind_def spec_resourceName_def upper_char_def)

theorem selector_decoding_counterexample:
  "changeType ''Created'' = ''Created'' \<and>
   decodedResource ''Created'' = ''C'' \<and>
   spec_resourceName ''Created'' = [] \<and>
   decodedResource ''Created'' \<noteq> spec_resourceName ''Created''"
  by (simp add: changeType_eq decodedResource_eq spec_resourceName_def upper_char_def)

text \<open>
  C9, as amended. A poll that selects a custom object and supplies the empty name is not
  rejected before querying: the query is built for the empty resource name and the request
  is made. The poll fails only when the fetch step fails, with that error and the static data
  untouched; when the fetch step succeeds the batch is returned and the checkpoint moves to
  \<open>now\<close>.
\<close>
theorem unnamed_custom_object:
  assumes "decodedResource (triggerOn c) = ''CustomObject''" and "customObject c = []"
  shows "triggerResource c = [] \<and>
         buildQuery c wd =
           (if getMode c = ''manual'' then getQuery c (pollOptions c wd) [] False (Some 1)
            else getQuery c (pollOptions c wd) [] True None) \<and>
         (fst (router c wd) = Inl err \<longrightarrow>
            fetchStep c wd = Inl err \<and> fst (snd (router c wd)) = wd) \<and>
         (fetchStep c wd = Inr rs \<longrightarrow>
            fst (router c wd) = Inr (if rs = [] then None else Some [returnJsonArray rs]) \<and>
            lastTimeChecked (fst (snd (router c wd))) = Some (now c))"
proof -
  have t: "triggerResource c = []"
    using assms by (simp add: triggerResource_def)
  have q: "buildQuery c wd =
      (if getMode c = ''manual'' then getQuery c (pollOptions c wd) [] False (Some 1)
       else getQuery c (pollOptions c wd) [] True None)"
    by (simp add: buildQuery_def t)
  have e: "fetchStep c wd = Inl err \<and> fst (snd (router c wd)) = wd"
    if "fst (router c wd) = Inl err"
  proof -
    from that have f: "fetchStep c wd = Inl err" by (rule router_failure_only_from_fetch)
    with router_failure [OF f] show ?thesis by simp
  qed
  have s: "fst (router c wd) = Inr (if rs = [] then None else Some [returnJsonArray rs]) \<and>
      lastTimeChecked (fst (snd (router c wd))) = Some (now c)"
    if "fetchStep c wd = Inr rs"
    using router_success [OF that] by (simp add: endDate_def)
  from t q e s show ?thesis by blast
qed

theorem unnamed_custom_object_witness:
  "decodedResource (triggerOn (sampleEnv ''trigger'' ''customObjectCreated'' []
      ''2024-01-02T00:00:00Z'' (answering [5 :: nat]))) = ''CustomObject'' \<and>
   customObject (sampleEnv ''trigger'' ''customObjectCreated'' []
      ''2024-01-02T00:00:00Z'' (answering [5 :: nat])) = [] \<and>
   fetchStep (sampleEnv ''trigger'' ''customObjectCreated'' [] ''2024-01-02T00:00:00Z''
      (answering [5 :: nat])) (sampleData (Some ''2024-01-01T00:00:00Z'')) = Inr [5] \<and>
   triggerResource (sampleEnv ''trigger'' ''customObjectCreated'' []
      ''2024-01-02T00:00:00Z'' (answering [5 :: nat])) = [] \<and>
   buildQuery (sampleEnv ''trigger'' ''customObjectCreated'' [] ''2024-01-02T00:00:00Z''
      (answering [5 :: nat])) (sampleData (Some ''2024-01-01T00:00:00Z'')) = Inr ''SELECT id FROM '' \<and>
   lastTimeChecked (fst (snd (router (sampleEnv ''trigger'' ''customObjectCreated'' []
      ''2024-01-02T00:00:00Z'' (answering [5 :: nat])) (sampleData (Some ''2024-01-01T00:00:00Z'')))))
     = Some ''2024-01-02T00:00:00Z''"
  using unnamed_custom_object
    [of "sampleEnv ''trigger'' ''customObjectCreated'' [] ''2024-01-02T00:00:00Z'' (answering [5 :: nat])"
        "sampleData (Some ''2024-01-01T00:00:00Z'')" "NodeApiError []" "[5]"]
  by (simp add: sample_defs router_defs decodedResource_eq upper_char_def)

theorem unnamed_custom_object_counterexample:
  "decodedResource (triggerOn (sampleEnv ''trigger'' ''customObjectCreated'' []
      ''2024-01-02T00:00:00Z'' (answering [5 :: nat]))) = ''CustomObject'' \<and>
   customObject (sampleEnv ''trigger'' ''customObjectCreated'' []
      ''2024-01-02T00:00:00Z'' (answering [5 :: nat])) = [] \<and>
   router (sampleEnv ''trigger'' ''customObjectCreated'' [] ''2024-01-02T00:00:00Z''
      (answering [5 :: nat])) (sampleData (Some ''2024-01-01T00:00:00Z'')) =
     (Inr (Some [[Item 5]]), sampleData (Some ''2024-01-02T00:00:00Z''), []) \<and>
   \<not> (succeeded (fst (router (sampleEnv ''trigger'' ''customObjectCreated'' []
          ''2024-01-02T00:00:00Z'' (answering [5 :: nat]))
          (sampleData (Some ''2024-01-01T00:00:00Z'')))) = False \<and>
      fst (snd (router (sampleEnv ''trigger'' ''customObjectCreated'' []
          ''2024-01-02T00:00:00Z'' (answering [5 :: nat]))
          (sampleData (Some ''2024-01-01T00:00:00Z'')))) = sampleData (Some ''2024-01-01T00:00:00Z''))"
  by (simp add: sample_defs router_defs decodedResource_eq upper_char_def)

subsection \<open>Unrecognised change types\<close>

text \<open>
  C10. In a poll that is not manual, a selector whose final seven characters are not
  \<open>Created\<close> gets the three clauses of the \<open>Updated\<close> branch, whatever the suffix is. No
  validation rejects it: the poll fails only when the fetch step fails, and succeeds when
  the fetch step does.
\<close>
theorem unrecognised_suffix_is_updated:
  assumes "getMode c \<noteq> ''manual''" and "changeType (triggerOn c) \<noteq> ''Created''"
  shows "conditionValues (conditionsUi (pollOptions c wd)) =
           [\<lparr>field = ''LastModifiedDate'', operation = ''>='', cvalue = startDate c wd\<rparr>,
            \<lparr>field = ''LastModifiedDate'', operation = ''<'', cvalue = endDate c\<rparr>,
            \<lparr>field = ''CreatedDate'', operation = ''<'', cvalue = startDate c wd\<rparr>] \<and>
         buildQuery c wd = getQuery c (pollOptions c wd) (triggerResource c) True None \<and>
         (fst (router c wd) = Inl err \<longrightarrow> fetchStep c wd = Inl err) \<and>
         (fetchStep c wd = Inr rs \<longrightarrow> succeeded (fst (router c wd)))"
proof -
  have cs: "conditionValues (conditionsUi (pollOptions c wd)) =
           [\<lparr>field = ''LastModifiedDate'', operation = ''>='', cvalue = startDate c wd\<rparr>,
            \<lparr>field = ''LastModifiedDate'', operation = ''<'', cvalue = endDate c\<rparr>,
            \<lparr>field = ''CreatedDate'', operation = ''<'', cvalue = startDate c wd\<rparr>]"
    using assms by (simp add: pollOptions_conditions pollConditions_def)
  have q: "buildQuery c wd = getQuery c (pollOptions c wd) (triggerResource c) True None"
    using assms(1) by (simp add: buildQuery_def)
  have e: "fetchStep c wd = Inl err" if "fst (router c wd) = Inl err"
    using that by (rule router_failure_only_from_fetch)
  have s: "succeeded (fst (router c wd))" if "fetchStep c wd = Inr rs"
    using that by (simp add: router_succeeded_iff)
  from cs q e s show ?thesis by blast
qed

theorem unrecognised_suffix_is_updated_witness:
  "getMode (sampleEnv ''trigger'' ''leadDeleted'' [] ''2024-01-02T00:00:00Z''
      (answering [5 :: nat])) \<noteq> ''manual'' \<and>
   changeType (triggerOn (sampleEnv ''trigger'' ''leadDeleted'' [] ''2024-01-02T00:00:00Z''
      (answering [5 :: nat]))) \<noteq> ''Created'' \<and>
   changeType (triggerOn (sampleEnv ''trigger'' ''leadDeleted'' [] ''2024-01-02T00:00:00Z''
      (answering [5 :: nat]))) \<noteq> ''Updated'' \<and>
   conditionValues (conditionsUi (pollOptions
      (sampleEnv ''trigger'' ''leadDeleted'' [] ''2024-01-02T00:00:00Z'' (answering [5 :: nat]))
      (sampleData (Some ''2024-01-01T00:00:00Z'')))) =
     [\<lparr>field = ''LastModifiedDate'', operation = ''>='', cvalue = ''2024-01-01T00:00:00Z''\<rparr>,
      \<lparr>field = ''LastModifiedDate'', operation = ''<'', cvalue = ''2024-01-02T00:00:00Z''\<rparr>,
      \<lparr>field = ''CreatedDate'', operation = ''<'', cvalue = ''2024-01-01T00:00:00Z''\<rparr>] \<and>
   fst (router (sampleEnv ''trigger'' ''leadDeleted'' [] ''2024-01-02T00:00:00Z''
      (answering [5 :: nat])) (sampleData (Some ''2024-01-01T00:00:00Z''))) = Inr (Some [[Item 5]])"
  using unrecognised_suffix_is_updated
    [of "sampleEnv ''trigger'' ''leadDeleted'' [] ''2024-01-02T00:00:00Z'' (answering [5 :: nat])"
        "sampleData (Some ''2024-01-01T00:00:00Z'')" "NodeApiError []" "[5]"]
  by (simp add: sample_defs router_defs changeType_eq)

end
